theory Spec2Isabelle
  imports Complex_Main
begin

section \<open>Values shared by the components\<close>

text \<open>
  The backend answers a query with an object \<open>{ data, error }\<close>; the awaited call may also
  throw. An error is kept as its message.
\<close>

datatype error = Error string

text \<open>
  \<open>User\<close> and \<open>Session\<close> come from the auth client: the guard and the session store read
  only \<open>user.id\<close> and \<open>user.email\<close> (which may be undefined).
\<close>

record User =
  user_id :: string
  user_email :: "string option"

record Session =
  session_user :: User

text \<open>
  \<open>interface UserData\<close> of AuthContext.tsx. The role is declared as a union of three string
  literals, but the value is the backend's string, cast with \<open>as UserData\<close>, so at run time
  it is any string.
\<close>

record UserData =
  ud_id :: string
  ud_email :: string
  ud_name :: string
  role :: string

text \<open>The arguments of a console call, and the two console calls the sources use.\<close>

datatype logarg =
    Text string
  | Email "string option"
  | Profile "UserData option"
  | Flag bool
  | Roles "string list"
  | Err error

datatype console_line = ConsoleLog "logarg list" | ConsoleError "logarg list"

text \<open>The queries and mutations the modelled functions send to the backend tables.\<close>

record attendance_insert =
  ins_id :: "int option"
  ins_member_id :: "string option"
  ins_check_in_time :: "string option"
  ins_check_out_time :: "string option"

datatype request =
    UsersSelectSingle string
  | AttendanceSelect string
  | AttendanceInsert attendance_insert
  | AttendanceUpdate int string
  | PaymentsSelect
  | MembersSelect
  | TrainersSelectSingle string

text \<open>The object \<open>{ data, error }\<close> a query returns: an error, or the data.\<close>

datatype 'a result = Failed error | Data 'a

text \<open>What every component can write to outside its own state: the console and the backend.\<close>

record browser =
  console :: "console_line list"
  requests :: "request list"

section \<open>Session store: src/contexts/AuthContext.tsx\<close>

text \<open>
  The four state cells of \<open>AuthProvider\<close>, the path of \<open>window.location\<close>, and the calls
  made to the router's \<open>navigate\<close>.
\<close>

record AuthProvider = browser +
  session :: "Session option"
  user :: "User option"
  userData :: "UserData option"
  isLoading :: bool
  pathname :: string
  navigations :: "string list"

text \<open>\<open>String.prototype.startsWith\<close>.\<close>

definition startsWith :: "string \<Rightarrow> string \<Rightarrow> bool" where
  "startsWith s p = (take (length p) s = p)"

text \<open>\<open>navigate(to)\<close> pushes the new path: the call is recorded and the location changes.\<close>

definition navigate :: "string \<Rightarrow> AuthProvider \<Rightarrow> AuthProvider" where
  "navigate to w = w\<lparr>pathname := to, navigations := navigations w @ [to]\<rparr>"

text \<open>\<open>redirectBasedOnRole\<close>, AuthContext.tsx lines 95 to 117.\<close>

definition redirectBasedOnRole :: "string \<Rightarrow> AuthProvider \<Rightarrow> AuthProvider" where
  "redirectBasedOnRole r w =
     (let currentPath = pathname w in
      if (r = ''admin'' \<and> startsWith currentPath ''/admin'') \<or>
         (r = ''trainer'' \<and> startsWith currentPath ''/trainer'') \<or>
         (r = ''member'' \<and> startsWith currentPath ''/member'')
      then w
      else if currentPath = ''/auth'' then
        (if r = ''admin'' then navigate ''/admin'' w
         else if r = ''trainer'' then navigate ''/trainer'' w
         else if r = ''member'' then navigate ''/member'' w
         else w)
      else w)"

text \<open>
  The answer of \<open>supabase.from("users").select(...).eq("id", userId).single()\<close>:
  the awaited call throws, or it returns the object \<open>{ data, error }\<close>, with an error or
  with \<open>data\<close> (possibly null).
\<close>

datatype 'a awaited = Threw error | Returned "'a result"

text \<open>The \<open>catch\<close> block of \<open>fetchUserData\<close>, lines 89 to 92.\<close>

definition fetchUserData_catch :: "error \<Rightarrow> AuthProvider \<Rightarrow> AuthProvider" where
  "fetchUserData_catch e w =
     w\<lparr>console := console w @ [ConsoleError [Text ''Error fetching user data:'', Err e]],
       userData := None\<rparr>"

text \<open>
  \<open>fetchUserData\<close>, lines 73 to 93. The query is sent once; its answer is the second
  argument.
\<close>

definition fetchUserData ::
  "string \<Rightarrow> UserData option awaited \<Rightarrow> AuthProvider \<Rightarrow> AuthProvider" where
  "fetchUserData userId answer w =
     (let w1 = w\<lparr>requests := requests w @ [UsersSelectSingle userId]\<rparr> in
      case answer of
        Threw e \<Rightarrow> fetchUserData_catch e w1
      | Returned (Failed e) \<Rightarrow> fetchUserData_catch e w1
      | Returned (Data None) \<Rightarrow> w1
      | Returned (Data (Some d)) \<Rightarrow> redirectBasedOnRole (role d) (w1\<lparr>userData := Some d\<rparr>))"

section \<open>Route guard: src/components/ProtectedRoute.tsx\<close>

text \<open>\<open>useLocation()\<close> gives the router's location object.\<close>

record Location =
  loc_pathname :: string
  loc_search :: string
  loc_hash :: string

record 'c ProtectedRouteProps =
  children :: 'c
  allowedRoles :: "string list"

text \<open>
  What the component returns: the spinner of lines 25 to 32, a \<open>Navigate\<close> element with its
  \<open>to\<close>, \<open>state.from\<close> and \<open>replace\<close> props, or the children.
\<close>

datatype 'c element =
    Loading
  | Navigate string "Location option" bool
  | Children 'c

text \<open>The four debug lines written at every evaluation, lines 19 to 22.\<close>

definition debug_logs :: "'c ProtectedRouteProps \<Rightarrow> AuthProvider \<Rightarrow> console_line list" where
  "debug_logs props w =
     [ConsoleLog [Text ''Protected Route - User:'',
                  Email (case user w of None \<Rightarrow> None | Some u \<Rightarrow> user_email u)],
      ConsoleLog [Text ''Protected Route - User Data:'', Profile (userData w)],
      ConsoleLog [Text ''Protected Route - Is Loading:'', Flag (isLoading w)],
      ConsoleLog [Text ''Protected Route - Allowed Roles:'', Roles (allowedRoles props)]]"

definition console_log :: "string \<Rightarrow> AuthProvider \<Rightarrow> AuthProvider" where
  "console_log s w = w\<lparr>console := console w @ [ConsoleLog [Text s]]\<rparr>"

text \<open>
  The test of line 40,
  \<open>allowedRoles.length > 0 && userData && !allowedRoles.includes(userData.role)\<close>.
\<close>

definition wrong_role :: "string list \<Rightarrow> UserData option \<Rightarrow> bool" where
  "wrong_role roles ud =
     (length roles > 0 \<and>
      (case ud of None \<Rightarrow> False | Some d \<Rightarrow> role d \<notin> set roles))"

text \<open>\<open>ProtectedRoute\<close>, lines 11 to 57: the element returned and the world afterwards.\<close>

definition ProtectedRoute ::
  "'c ProtectedRouteProps \<Rightarrow> Location \<Rightarrow> AuthProvider \<Rightarrow> 'c element \<times> AuthProvider" where
  "ProtectedRoute props location w =
     (let w1 = w\<lparr>console := console w @ debug_logs props w\<rparr> in
      if isLoading w then (Loading, w1)
      else if user w = None then
        (Navigate ''/auth'' (Some location) True,
         console_log ''Protected Route - No user, redirecting to /auth'' w1)
      else if wrong_role (allowedRoles props) (userData w) then
        (let w2 = console_log ''Protected Route - User has incorrect role, redirecting to proper dashboard'' w1;
             r = (case userData w of None \<Rightarrow> [] | Some d \<Rightarrow> role d) in
         if r = ''admin'' then (Navigate ''/admin'' None True, w2)
         else if r = ''trainer'' then (Navigate ''/trainer'' None True, w2)
         else if r = ''member'' then (Navigate ''/member'' None True, w2)
         else (Navigate ''/auth'' None True, w2))
      else (Children (children props), console_log ''Protected Route - Access granted'' w1))"

section \<open>Admin dashboard: src/pages/admin/Dashboard.tsx\<close>

subsection \<open>Total revenue, lines 83 to 97\<close>

text \<open>
  A JavaScript number: a finite value or NaN. Finite values are taken as reals, so the
  rounding of the sum is left out; the infinities are not modelled. Adding NaN gives NaN.
\<close>

datatype jsnum = Num real | NaN

fun js_add :: "jsnum \<Rightarrow> jsnum \<Rightarrow> jsnum" where
  "js_add (Num a) (Num b) = Num (a + b)"
| "js_add _ _ = NaN"

text \<open>A row of \<open>payments\<close> as selected: \<open>amount: number | null\<close> (types.ts).\<close>

record payment =
  amount :: "real option"

text \<open>
  \<open>parseFloat\<close> on \<open>number | null\<close>: the argument is turned into a string first, a finite
  number reads back as itself, and \<open>"null"\<close> reads as NaN.
\<close>

definition parseFloat :: "real option \<Rightarrow> jsnum" where
  "parseFloat v = (case v of None \<Rightarrow> NaN | Some x \<Rightarrow> Num x)"

text \<open>The \<open>queryFn\<close> of the \<open>totalRevenue\<close> query: the value returned and the browser afterwards.\<close>

definition totalRevenue_queryFn :: "payment list result \<Rightarrow> browser \<Rightarrow> jsnum \<times> browser" where
  "totalRevenue_queryFn answer b =
     (let b1 = b\<lparr>requests := requests b @ [PaymentsSelect]\<rparr> in
      case answer of
        Failed e \<Rightarrow>
          (Num 0, b1\<lparr>console := console b1 @ [ConsoleError [Text ''Error fetching payments:'', Err e]]\<rparr>)
      | Data rows \<Rightarrow>
          (foldl (\<lambda>total payment. js_add total (parseFloat (amount payment))) (Num 0) rows, b1))"

subsection \<open>Top trainer, lines 100 to 151\<close>

text \<open>Truthiness of a value of type \<open>string | null\<close>: null and the empty string are falsy.\<close>

definition truthy :: "string option \<Rightarrow> bool" where
  "truthy s = (case s of None \<Rightarrow> False | Some x \<Rightarrow> x \<noteq> [])"

text \<open>A row of \<open>members\<close> as selected; only \<open>trainer_id: string | null\<close> is read.\<close>

record member_row =
  trainer_id :: "string option"

text \<open>
  \<open>trainerCounts\<close> is a plain object created by \<open>{}\<close>. It is kept as the list of its own
  properties in the order of their creation. Reading a key that is not an own property
  goes to \<open>Object.prototype\<close>: for the names below the value read is a function, and for
  \<open>__proto__\<close> it is the prototype object itself; for every other key it is undefined.
\<close>

definition prototype_functions :: "string list" where
  "prototype_functions =
     [''constructor'', ''__defineGetter__'', ''__defineSetter__'', ''hasOwnProperty'',
      ''__lookupGetter__'', ''__lookupSetter__'', ''isPrototypeOf'', ''propertyIsEnumerable'',
      ''toString'', ''valueOf'', ''toLocaleString'']"

definition inherited :: "string \<Rightarrow> bool" where
  "inherited k = (k = ''__proto__'' \<or> k \<in> set prototype_functions)"

text \<open>
  The value of an own property of \<open>trainerCounts\<close>: a number, or the string obtained when
  \<open>+ 1\<close> was applied to an inherited function: its source text followed by that many
  characters \<open>1\<close>.
\<close>

datatype property = Number nat | Source_text nat

text \<open>
  Line 116, \<open>trainerCounts[id] = (trainerCounts[id] || 0) + 1\<close>. An own property is
  updated in place: a number is incremented, a string (truthy) gets another \<open>1\<close>
  appended. For a new key the value read is undefined and the property is created at the
  end with the number 1, unless the key is inherited: an inherited function is truthy, so
  the new own property is a string; and for \<open>__proto__\<close> the assignment calls the inherited
  setter, which ignores a string, so no own property is created.
\<close>

fun increment :: "string \<Rightarrow> (string \<times> property) list \<Rightarrow> (string \<times> property) list" where
  "increment k [] =
     (if k = ''__proto__'' then []
      else if k \<in> set prototype_functions then [(k, Source_text 1)]
      else [(k, Number (0 + 1))])"
| "increment k ((k', v) # kvs) =
     (if k = k'
      then (k', (case v of
                   Number c \<Rightarrow> Number ((if c = 0 then 0 else c) + 1)
                 | Source_text n \<Rightarrow> Source_text (n + 1))) # kvs
      else (k', v) # increment k kvs)"

text \<open>The body of the \<open>forEach\<close> of lines 114 to 118, and the loop.\<close>

definition count_member ::
  "(string \<times> property) list \<Rightarrow> member_row \<Rightarrow> (string \<times> property) list" where
  "count_member trainerCounts member =
     (if truthy (trainer_id member)
      then (case trainer_id member of None \<Rightarrow> trainerCounts | Some t \<Rightarrow> increment t trainerCounts)
      else trainerCounts)"

definition trainerCounts_of :: "member_row list \<Rightarrow> (string \<times> property) list" where
  "trainerCounts_of rows = foldl count_member [] rows"

text \<open>
  \<open>Object.entries\<close> lists the properties that are array indices (canonical decimal
  numerals below \<open>2^32 - 1\<close>) in ascending numeric order, then the other string keys in the
  order of their creation.
\<close>

definition is_digit :: "char \<Rightarrow> bool" where
  "is_digit c = (48 \<le> (of_char c :: nat) \<and> (of_char c :: nat) \<le> 57)"

definition index_value :: "string \<Rightarrow> nat" where
  "index_value s = foldl (\<lambda>n c. 10 * n + (of_char c - 48)) 0 s"

definition is_array_index :: "string \<Rightarrow> bool" where
  "is_array_index s =
     (s \<noteq> [] \<and> list_all is_digit s \<and> (s = ''0'' \<or> hd s \<noteq> CHR ''0'') \<and>
      index_value s < 2 ^ 32 - 1)"

definition Object_entries :: "(string \<times> property) list \<Rightarrow> (string \<times> property) list" where
  "Object_entries kvs =
     sort_key (\<lambda>kv. index_value (fst kv)) (filter (\<lambda>kv. is_array_index (fst kv)) kvs) @
     filter (\<lambda>kv. \<not> is_array_index (fst kv)) kvs"

text \<open>
  The body of the \<open>forEach\<close> of lines 123 to 128, from \<open>(null, 0)\<close>. In
  \<open>count > maxCount\<close> a string count is converted to a number, which gives NaN for a
  function's source text, and the comparison is false.
\<close>

definition top_step ::
  "string option \<times> nat \<Rightarrow> string \<times> property \<Rightarrow> string option \<times> nat" where
  "top_step acc entry =
     (case acc of (topTrainerId, maxCount) \<Rightarrow>
      case entry of (trainerId, count) \<Rightarrow>
        (case count of
           Number c \<Rightarrow> if c > maxCount then (Some trainerId, c) else (topTrainerId, maxCount)
         | Source_text n \<Rightarrow> (topTrainerId, maxCount)))"

definition select_top :: "(string \<times> property) list \<Rightarrow> string option \<times> nat" where
  "select_top entries = foldl top_step (None, 0) entries"

text \<open>
  The row of \<open>trainers\<close> selected with \<open>users(name)\<close>: the joined user is null when the
  trainer has no user, and \<open>trainerData.users.name\<close> then raises a TypeError.
\<close>

record trainer_details =
  users :: "string option"

record TopTrainer =
  name :: string
  memberCount :: nat

record AdminDashboard = browser +
  topTrainer :: "TopTrainer option"

text \<open>
  The state in which \<open>fetchTopTrainer\<close> runs: the effect of lines 100 to 151 has an empty
  dependency list, so it runs once, after the first render, when \<open>topTrainer\<close> still
  holds the null of \<open>useState<any>(null)\<close> (line 46).
\<close>

definition mounted :: "browser \<Rightarrow> AdminDashboard" where
  "mounted b = \<lparr>console = console b, requests = requests b, topTrainer = None\<rparr>"

datatype exn = TypeError

text \<open>
  \<open>fetchTopTrainer\<close>: the first argument answers the query on \<open>members\<close>, the second the
  query on \<open>trainers\<close> for the id asked.
\<close>

definition fetchTopTrainer ::
  "member_row list result \<Rightarrow> (string \<Rightarrow> trainer_details result) \<Rightarrow> AdminDashboard
     \<Rightarrow> exn + AdminDashboard" where
  "fetchTopTrainer members_answer trainers_answer d =
     (let d1 = d\<lparr>requests := requests d @ [MembersSelect]\<rparr> in
      case members_answer of
        Failed e \<Rightarrow>
          Inr (d1\<lparr>console := console d1 @ [ConsoleError [Text ''Error fetching trainer data:'', Err e]]\<rparr>)
      | Data rows \<Rightarrow>
          (case select_top (Object_entries (trainerCounts_of rows)) of (topTrainerId, maxCount) \<Rightarrow>
           if truthy topTrainerId then
             (case topTrainerId of None \<Rightarrow> Inr d1 | Some t \<Rightarrow>
               (let d2 = d1\<lparr>requests := requests d1 @ [TrainersSelectSingle t]\<rparr> in
                case trainers_answer t of
                  Failed e \<Rightarrow>
                    Inr (d2\<lparr>console := console d2 @
                               [ConsoleError [Text ''Error fetching top trainer:'', Err e]]\<rparr>)
                | Data trainerData \<Rightarrow>
                    (case users trainerData of
                       None \<Rightarrow> Inl TypeError
                     | Some n \<Rightarrow> Inr (d2\<lparr>topTrainer := Some \<lparr>name = n, memberCount = maxCount\<rparr>\<rparr>))))
           else Inr d1))"

text \<open>The value shown by the "Top Trainer" card, line 182.\<close>

definition topTrainer_value :: "AdminDashboard \<Rightarrow> string" where
  "topTrainer_value d = (case topTrainer d of None \<Rightarrow> ''N/A'' | Some t \<Rightarrow> name t)"

section \<open>Member dashboard: attendance toggle (src/unnamed/part_002, lines 539 to 610)\<close>







section \<open>Sample values\<close>

text \<open>Concrete sessions, pages and rows at which the theorems below are instantiated.\<close>

definition alice :: User where
  "alice = \<lparr>user_id = ''u1'', user_email = Some ''alice@example.org''\<rparr>"

definition profile :: "string \<Rightarrow> UserData" where
  "profile r = \<lparr>ud_id = ''u1'', ud_email = ''alice@example.org'', ud_name = ''Alice'', role = r\<rparr>"

definition signed_in :: "UserData option \<Rightarrow> string \<Rightarrow> AuthProvider" where
  "signed_in ud path =
     \<lparr>console = [], requests = [], session = Some \<lparr>session_user = alice\<rparr>, user = Some alice,
      userData = ud, isLoading = False, pathname = path, navigations = []\<rparr>"

definition anonymous :: "string \<Rightarrow> AuthProvider" where
  "anonymous path =
     \<lparr>console = [], requests = [], session = None, user = None,
      userData = None, isLoading = False, pathname = path, navigations = []\<rparr>"

definition at_path :: "string \<Rightarrow> Location" where
  "at_path p = \<lparr>loc_pathname = p, loc_search = [], loc_hash = []\<rparr>"

definition page :: "string \<Rightarrow> string list \<Rightarrow> string ProtectedRouteProps" where
  "page view roles = \<lparr>children = view, allowedRoles = roles\<rparr>"

definition paid :: "real \<Rightarrow> payment" where
  "paid x = \<lparr>amount = Some x\<rparr>"

definition amount_missing :: payment where
  "amount_missing = \<lparr>amount = None\<rparr>"

definition idle_browser :: browser where
  "idle_browser = \<lparr>console = [], requests = []\<rparr>"

definition known_trainer :: "string \<Rightarrow> trainer_details result" where
  "known_trainer t = Data \<lparr>users = Some (''Trainer '' @ t)\<rparr>"

definition unknown_trainer :: "string \<Rightarrow> trainer_details result" where
  "unknown_trainer t = Failed (Error ''no rows'')"

definition assigned_to :: "string \<Rightarrow> member_row" where
  "assigned_to t = \<lparr>trainer_id = Some t\<rparr>"

definition unassigned :: member_row where
  "unassigned = \<lparr>trainer_id = None\<rparr>"



section \<open>The route guard\<close>

text \<open>
  What the guard does whenever loading is false, an identity is present and the profile is
  null: the test of line 40 is false whatever \<open>allowedRoles\<close> is, and the children are
  returned.
\<close>

lemma guard_without_profile:
  "\<not> isLoading w \<Longrightarrow> user w \<noteq> None \<Longrightarrow> userData w = None \<Longrightarrow>
   fst (ProtectedRoute props location w) = Children (children props)"
  by (simp add: ProtectedRoute_def wrong_role_def Let_def)

text \<open>
  C1. The claim: with loading false, an identity present and the profile null, the guard
  renders the loading state, neither the guarded content nor a redirect. The code does
  not: a member asking for the admin page is first redirected to \<open>/member\<close>; once a
  profile fetch has failed, which sets the profile to null and leaves the identity and the
  loading flag as they are, the same request is answered with the admin page itself.
\<close>

theorem guard_pending_profile_fails_open:
  "fst (ProtectedRoute (page ''AdminDashboard'' [''admin'']) (at_path ''/admin'')
          (signed_in (Some (profile ''member'')) ''/admin'')) = Navigate ''/member'' None True \<and>
   \<not> isLoading (fetchUserData ''u1'' (Returned (Failed (Error ''timeout'')))
          (signed_in (Some (profile ''member'')) ''/admin'')) \<and>
   user (fetchUserData ''u1'' (Returned (Failed (Error ''timeout'')))
          (signed_in (Some (profile ''member'')) ''/admin'')) = Some alice \<and>
   userData (fetchUserData ''u1'' (Returned (Failed (Error ''timeout'')))
          (signed_in (Some (profile ''member'')) ''/admin'')) = None \<and>
   fst (ProtectedRoute (page ''AdminDashboard'' [''admin'']) (at_path ''/admin'')
          (fetchUserData ''u1'' (Returned (Failed (Error ''timeout'')))
             (signed_in (Some (profile ''member'')) ''/admin''))) \<noteq> Loading \<and>
   fst (ProtectedRoute (page ''AdminDashboard'' [''admin'']) (at_path ''/admin'')
          (fetchUserData ''u1'' (Returned (Failed (Error ''timeout'')))
             (signed_in (Some (profile ''member'')) ''/admin''))) = Children ''AdminDashboard''"
  by (simp add: ProtectedRoute_def wrong_role_def Let_def signed_in_def page_def profile_def
        fetchUserData_def fetchUserData_catch_def)

text \<open>
  C2. When loading is false and there is no identity, the guard returns a redirect to
  \<open>/auth\<close> that replaces the history entry and carries the current location as
  \<open>state.from\<close>, for every location and every \<open>allowedRoles\<close>.
\<close>

theorem guard_anonymous_redirects_to_auth:
  "\<not> isLoading w \<Longrightarrow> user w = None \<Longrightarrow>
   fst (ProtectedRoute props location w) = Navigate ''/auth'' (Some location) True"
  by (simp add: ProtectedRoute_def Let_def)

theorem guard_anonymous_redirects_to_auth_witness:
  "\<not> isLoading (anonymous ''/admin/users'') \<and> user (anonymous ''/admin/users'') = None \<and>
   fst (ProtectedRoute (page ''AdminUsers'' [''admin'']) (at_path ''/admin/users'')
          (anonymous ''/admin/users'')) = Navigate ''/auth'' (Some (at_path ''/admin/users'')) True"
  using guard_anonymous_redirects_to_auth
          [of "anonymous ''/admin/users''" "page ''AdminUsers'' [''admin'']" "at_path ''/admin/users''"]
  by (simp add: anonymous_def)

text \<open>
  C3. With loading false, an identity present and a fetched profile: an admin asking for a
  page that allows only trainers is redirected to \<open>/admin\<close>; and whenever \<open>allowedRoles\<close> is
  non-empty and does not contain the role, an admin, trainer or member is redirected to
  \<open>/admin\<close>, \<open>/trainer\<close> or \<open>/member\<close> respectively, so the guarded content is not rendered.
\<close>

theorem guard_wrong_role_redirects_home:
  "\<not> isLoading w \<Longrightarrow> user w \<noteq> None \<Longrightarrow> userData w = Some d \<Longrightarrow>
   (role d = ''admin'' \<and> allowedRoles props = [''trainer''] \<longrightarrow>
      fst (ProtectedRoute props location w) = Navigate ''/admin'' None True) \<and>
   (allowedRoles props \<noteq> [] \<and> role d \<notin> set (allowedRoles props) \<longrightarrow>
      (role d = ''admin'' \<longrightarrow>
         fst (ProtectedRoute props location w) = Navigate ''/admin'' None True) \<and>
      (role d = ''trainer'' \<longrightarrow>
         fst (ProtectedRoute props location w) = Navigate ''/trainer'' None True) \<and>
      (role d = ''member'' \<longrightarrow>
         fst (ProtectedRoute props location w) = Navigate ''/member'' None True) \<and>
      (role d \<in> {''admin'', ''trainer'', ''member''} \<longrightarrow>
         fst (ProtectedRoute props location w) \<noteq> Children (children props)))"
  by (auto simp add: ProtectedRoute_def wrong_role_def Let_def)

theorem guard_wrong_role_redirects_home_witness:
  "\<not> isLoading (signed_in (Some (profile ''admin'')) ''/trainer'') \<and>
   user (signed_in (Some (profile ''admin'')) ''/trainer'') \<noteq> None \<and>
   userData (signed_in (Some (profile ''admin'')) ''/trainer'') = Some (profile ''admin'') \<and>
   role (profile ''admin'') = ''admin'' \<and>
   allowedRoles (page ''TrainerDashboard'' [''trainer'']) = [''trainer''] \<and>
   role (profile ''admin'') \<notin> set (allowedRoles (page ''TrainerDashboard'' [''trainer''])) \<and>
   fst (ProtectedRoute (page ''TrainerDashboard'' [''trainer'']) (at_path ''/trainer'')
          (signed_in (Some (profile ''admin'')) ''/trainer'')) = Navigate ''/admin'' None True"
  using guard_wrong_role_redirects_home
          [of "signed_in (Some (profile ''admin'')) ''/trainer''" "profile ''admin''"
              "page ''TrainerDashboard'' [''trainer'']" "at_path ''/trainer''"]
  by (simp add: signed_in_def profile_def page_def)

text \<open>
  C4. With loading false, an identity present and a fetched profile whose role is none of
  admin, trainer and member: when \<open>allowedRoles\<close> is non-empty and does not contain the
  role, the guard takes the fallback of line 52 and redirects to \<open>/auth\<close>.
\<close>

theorem guard_unknown_role_redirects_to_auth:
  "\<not> isLoading w \<Longrightarrow> user w \<noteq> None \<Longrightarrow> userData w = Some d \<Longrightarrow>
   role d \<noteq> ''admin'' \<Longrightarrow> role d \<noteq> ''trainer'' \<Longrightarrow> role d \<noteq> ''member'' \<Longrightarrow>
   allowedRoles props \<noteq> [] \<Longrightarrow> role d \<notin> set (allowedRoles props) \<Longrightarrow>
   fst (ProtectedRoute props location w) = Navigate ''/auth'' None True"
  by (simp add: ProtectedRoute_def wrong_role_def Let_def)

theorem guard_unknown_role_redirects_to_auth_witness:
  "\<not> isLoading (signed_in (Some (profile ''guest'')) ''/admin'') \<and>
   user (signed_in (Some (profile ''guest'')) ''/admin'') \<noteq> None \<and>
   userData (signed_in (Some (profile ''guest'')) ''/admin'') = Some (profile ''guest'') \<and>
   role (profile ''guest'') \<noteq> ''admin'' \<and> role (profile ''guest'') \<noteq> ''trainer'' \<and>
   role (profile ''guest'') \<noteq> ''member'' \<and>
   allowedRoles (page ''AdminDashboard'' [''admin'']) \<noteq> [] \<and>
   role (profile ''guest'') \<notin> set (allowedRoles (page ''AdminDashboard'' [''admin''])) \<and>
   fst (ProtectedRoute (page ''AdminDashboard'' [''admin'']) (at_path ''/admin'')
          (signed_in (Some (profile ''guest'')) ''/admin'')) = Navigate ''/auth'' None True"
  using guard_unknown_role_redirects_to_auth
          [of "signed_in (Some (profile ''guest'')) ''/admin''" "profile ''guest''"
              "page ''AdminDashboard'' [''admin'']" "at_path ''/admin''"]
  by (simp add: signed_in_def profile_def page_def)




section \<open>The session store\<close>

lemma redirect_at_home:
  "(r = ''admin'' \<and> startsWith (pathname w) ''/admin'') \<or>
   (r = ''trainer'' \<and> startsWith (pathname w) ''/trainer'') \<or>
   (r = ''member'' \<and> startsWith (pathname w) ''/member'') \<Longrightarrow> redirectBasedOnRole r w = w"
  by (simp add: redirectBasedOnRole_def Let_def)

lemma redirect_elsewhere: "pathname w \<noteq> ''/auth'' \<Longrightarrow> redirectBasedOnRole r w = w"
  by (simp add: redirectBasedOnRole_def Let_def)

lemma redirect_member_from_auth:
  "pathname w = ''/auth'' \<Longrightarrow> redirectBasedOnRole ''member'' w = navigate ''/member'' w"
  by (simp add: redirectBasedOnRole_def Let_def startsWith_def)

lemma redirect_member_settled:
  "startsWith (pathname w) ''/member'' \<Longrightarrow> (redirectBasedOnRole ''member'' ^^ n) w = w"
  by (induction n) (simp_all add: redirect_at_home)

lemma redirect_member_once:
  assumes "pathname w = ''/auth''"
  shows "(redirectBasedOnRole ''member'' ^^ Suc n) w = navigate ''/member'' w"
proof -
  have "(redirectBasedOnRole ''member'' ^^ Suc n) w =
        (redirectBasedOnRole ''member'' ^^ n) (redirectBasedOnRole ''member'' w)"
    by (simp only: funpow_Suc_right o_apply)
  also have "\<dots> = (redirectBasedOnRole ''member'' ^^ n) (navigate ''/member'' w)"
    using assms by (simp add: redirect_member_from_auth)
  also have "\<dots> = navigate ''/member'' w"
    by (rule redirect_member_settled) (simp add: navigate_def startsWith_def)
  finally show ?thesis .
qed

text \<open>
  C5. For every role, \<open>redirectBasedOnRole\<close> changes nothing unless the current path is
  exactly \<open>/auth\<close>, so a call to \<open>navigate\<close> happens only there. A member on \<open>/auth\<close> is
  sent to \<open>/member\<close>; however many times the function is evaluated again afterwards, the
  list of navigations stays at that single entry. Whenever the current path already starts
  with the home route of the role, the function changes nothing.
\<close>

theorem redirect_on_login_only_from_auth:
  "(pathname w \<noteq> ''/auth'' \<longrightarrow> redirectBasedOnRole r w = w) \<and>
   (navigations (redirectBasedOnRole r w) \<noteq> navigations w \<longrightarrow> pathname w = ''/auth'') \<and>
   (pathname w = ''/auth'' \<longrightarrow>
      redirectBasedOnRole ''member'' w =
        w\<lparr>pathname := ''/member'', navigations := navigations w @ [''/member'']\<rparr> \<and>
      navigations ((redirectBasedOnRole ''member'' ^^ Suc n) w) = navigations w @ [''/member'']) \<and>
   ((r = ''admin'' \<and> startsWith (pathname w) ''/admin'') \<or>
    (r = ''trainer'' \<and> startsWith (pathname w) ''/trainer'') \<or>
    (r = ''member'' \<and> startsWith (pathname w) ''/member'') \<longrightarrow>
      redirectBasedOnRole r w = w)"
proof (intro conjI impI)
  show "redirectBasedOnRole r w = w" if "pathname w \<noteq> ''/auth''"
    using that by (rule redirect_elsewhere)
  show "pathname w = ''/auth''" if "navigations (redirectBasedOnRole r w) \<noteq> navigations w"
  proof (rule ccontr)
    assume "pathname w \<noteq> ''/auth''"
    then have "redirectBasedOnRole r w = w" by (rule redirect_elsewhere)
    with that show False by simp
  qed
  show "redirectBasedOnRole ''member'' w =
        w\<lparr>pathname := ''/member'', navigations := navigations w @ [''/member'']\<rparr>"
    if "pathname w = ''/auth''"
    using that by (simp add: redirect_member_from_auth navigate_def)
  show "navigations ((redirectBasedOnRole ''member'' ^^ Suc n) w) = navigations w @ [''/member'']"
    if "pathname w = ''/auth''"
    using that by (simp only: redirect_member_once) (simp add: navigate_def)
  show "redirectBasedOnRole r w = w"
    if "(r = ''admin'' \<and> startsWith (pathname w) ''/admin'') \<or>
        (r = ''trainer'' \<and> startsWith (pathname w) ''/trainer'') \<or>
        (r = ''member'' \<and> startsWith (pathname w) ''/member'')"
    using that by (rule redirect_at_home)
qed

theorem redirect_on_login_only_from_auth_witness:
  "pathname (signed_in (Some (profile ''member'')) ''/auth'') = ''/auth'' \<and>
   redirectBasedOnRole ''member'' (signed_in (Some (profile ''member'')) ''/auth'') =
     (signed_in (Some (profile ''member'')) ''/auth'')
       \<lparr>pathname := ''/member'', navigations := [''/member'']\<rparr> \<and>
   navigations ((redirectBasedOnRole ''member'' ^^ Suc 2) (signed_in (Some (profile ''member'')) ''/auth''))
     = [''/member''] \<and>
   startsWith (pathname (signed_in (Some (profile ''member'')) ''/member/feedback'')) ''/member'' \<and>
   redirectBasedOnRole ''member'' (signed_in (Some (profile ''member'')) ''/member/feedback'')
     = signed_in (Some (profile ''member'')) ''/member/feedback''"
  using redirect_on_login_only_from_auth
          [of "signed_in (Some (profile ''member'')) ''/auth''" "''member''" 2]
        redirect_on_login_only_from_auth
          [of "signed_in (Some (profile ''member'')) ''/member/feedback''" "''member''" 0]
  by (simp add: signed_in_def startsWith_def del: funpow.simps)

text \<open>
  C7. When the profile query throws or returns an error, \<open>fetchUserData\<close> sets
  \<open>userData\<close> to null and writes one error line to the console. Exactly one query has been
  sent (no retry), \<open>navigate\<close> is not called and the path is unchanged (no redirect), and
  \<open>session\<close>, \<open>user\<close> and \<open>isLoading\<close> are as before.
\<close>

theorem profile_fetch_failure_leaves_profile_null:
  "answer = Threw e \<or> answer = Returned (Failed e) \<Longrightarrow>
   userData (fetchUserData userId answer w) = None \<and>
   console (fetchUserData userId answer w) =
     console w @ [ConsoleError [Text ''Error fetching user data:'', Err e]] \<and>
   requests (fetchUserData userId answer w) = requests w @ [UsersSelectSingle userId] \<and>
   navigations (fetchUserData userId answer w) = navigations w \<and>
   pathname (fetchUserData userId answer w) = pathname w \<and>
   session (fetchUserData userId answer w) = session w \<and>
   user (fetchUserData userId answer w) = user w \<and>
   isLoading (fetchUserData userId answer w) = isLoading w"
  by (auto simp add: fetchUserData_def fetchUserData_catch_def Let_def)

theorem profile_fetch_failure_leaves_profile_null_witness:
  "userData (fetchUserData ''u1'' (Returned (Failed (Error ''timeout'')))
       (signed_in (Some (profile ''member'')) ''/member'')) = None \<and>
   console (fetchUserData ''u1'' (Returned (Failed (Error ''timeout'')))
       (signed_in (Some (profile ''member'')) ''/member'')) =
     [ConsoleError [Text ''Error fetching user data:'', Err (Error ''timeout'')]] \<and>
   requests (fetchUserData ''u1'' (Returned (Failed (Error ''timeout'')))
       (signed_in (Some (profile ''member'')) ''/member'')) = [UsersSelectSingle ''u1''] \<and>
   navigations (fetchUserData ''u1'' (Returned (Failed (Error ''timeout'')))
       (signed_in (Some (profile ''member'')) ''/member'')) = [] \<and>
   user (fetchUserData ''u1'' (Returned (Failed (Error ''timeout'')))
       (signed_in (Some (profile ''member'')) ''/member'')) = Some alice"
  using profile_fetch_failure_leaves_profile_null
          [of "Returned (Failed (Error ''timeout''))" "Error ''timeout''" "''u1''"
              "signed_in (Some (profile ''member'')) ''/member''"]
  by (simp add: signed_in_def)

section \<open>The admin dashboard\<close>

subsection \<open>Total revenue\<close>

text \<open>
  When every fetched amount is a number the value returned is their sum (0 for the empty
  list), and when the query returns an error the value is 0 and one error line is logged.
\<close>

lemma revenue_fold:
  "\<forall>p\<in>set rows. amount p \<noteq> None \<Longrightarrow>
   foldl (\<lambda>total payment. js_add total (parseFloat (amount payment))) (Num acc) rows =
     Num (acc + (\<Sum>p\<leftarrow>rows. the (amount p)))"
  by (induction rows arbitrary: acc) (auto simp: parseFloat_def)

lemma total_revenue_is_sum:
  "\<forall>p\<in>set rows. amount p \<noteq> None \<Longrightarrow>
   totalRevenue_queryFn (Data rows) b =
     (Num (\<Sum>p\<leftarrow>rows. the (amount p)), b\<lparr>requests := requests b @ [PaymentsSelect]\<rparr>)"
  by (simp add: totalRevenue_queryFn_def Let_def revenue_fold)

lemma total_revenue_on_error:
  "totalRevenue_queryFn (Failed e) b =
     (Num 0, b\<lparr>requests := requests b @ [PaymentsSelect],
               console := console b @ [ConsoleError [Text ''Error fetching payments:'', Err e]]\<rparr>)"
  by (simp add: totalRevenue_queryFn_def Let_def)

lemma revenue_fold_NaN:
  "foldl (\<lambda>total payment. js_add total (parseFloat (amount payment))) NaN rows = NaN"
  by (induction rows) auto

lemma js_add_NaN: "js_add x NaN = NaN"
  by (cases x) simp_all

lemma parseFloat_null: "parseFloat None = NaN"
  by (simp add: parseFloat_def)

lemma revenue_fold_null:
  "\<exists>p\<in>set rows. amount p = None \<Longrightarrow>
   foldl (\<lambda>total payment. js_add total (parseFloat (amount payment))) acc rows = NaN"
proof (induction rows arbitrary: acc)
  case Nil
  then show ?case by simp
next
  case (Cons p rows)
  show ?case
  proof (cases "amount p")
    case None
    then show ?thesis by (simp add: parseFloat_null js_add_NaN revenue_fold_NaN)
  next
    case (Some x)
    with Cons.prems have "\<exists>q\<in>set rows. amount q = None" by auto
    then show ?thesis by (simp add: Cons.IH)
  qed
qed

lemma total_revenue_with_null_amount:
  "\<exists>p\<in>set rows. amount p = None \<Longrightarrow> fst (totalRevenue_queryFn (Data rows) b) = NaN"
  by (simp add: totalRevenue_queryFn_def Let_def revenue_fold_null)

text \<open>
  C8. The aggregate adds \<open>parseFloat(payment.amount)\<close> over the fetched rows, starting from
  0. The claim says the result is the sum of the amounts; at a fetched list in which one
  row has a null amount (\<open>amount: number | null\<close>), the code returns NaN, which is not
  the sum of the amounts present.
\<close>

theorem total_revenue_null_amount:
  "totalRevenue_queryFn (Data [paid 10, amount_missing, paid 5]) b =
     (NaN, b\<lparr>requests := requests b @ [PaymentsSelect]\<rparr>)"
  by (simp add: totalRevenue_queryFn_def Let_def paid_def amount_missing_def parseFloat_def)

subsection \<open>Top trainer\<close>

lemma increment_proto_new:
  "''__proto__'' \<notin> fst ` set kvs \<Longrightarrow> increment ''__proto__'' kvs = kvs"
  by (induction kvs) auto

lemma map_of_increment:
  "k \<noteq> ''__proto__'' \<Longrightarrow>
   map_of (increment k kvs) =
     (map_of kvs)(k \<mapsto>
        (case map_of kvs k of
           None \<Rightarrow> (if k \<in> set prototype_functions then Source_text 1 else Number 1)
         | Some (Number c) \<Rightarrow> Number (c + 1)
         | Some (Source_text n) \<Rightarrow> Source_text (n + 1)))"
  by (induction kvs) (auto simp: fun_eq_iff split: property.splits)

lemma keys_increment_old: "k \<in> fst ` set kvs \<Longrightarrow> map fst (increment k kvs) = map fst kvs"
  by (induction kvs) force+

lemma keys_increment_new:
  "k \<notin> fst ` set kvs \<Longrightarrow>
   map fst (increment k kvs) = map fst kvs @ (if k = ''__proto__'' then [] else [k])"
  by (induction kvs) auto

lemma distinct_increment: "distinct (map fst kvs) \<Longrightarrow> distinct (map fst (increment k kvs))"
  by (cases "k \<in> fst ` set kvs") (simp_all add: keys_increment_old keys_increment_new)

lemma trainerCounts_Nil: "trainerCounts_of [] = []"
  by (simp add: trainerCounts_of_def)

lemma trainerCounts_snoc:
  "trainerCounts_of (rows @ [m]) =
     (case trainer_id m of
        None \<Rightarrow> trainerCounts_of rows
      | Some t \<Rightarrow> if t = [] then trainerCounts_of rows else increment t (trainerCounts_of rows))"
  by (simp add: trainerCounts_of_def count_member_def truthy_def split: option.splits)

lemma distinct_trainerCounts: "distinct (map fst (trainerCounts_of rows))"
  by (induction rows rule: rev_induct)
     (simp_all add: trainerCounts_Nil trainerCounts_snoc distinct_increment split: option.splits)

lemma proto_not_key_increment:
  assumes "''__proto__'' \<notin> fst ` set kvs"
  shows "''__proto__'' \<notin> fst ` set (increment t kvs)"
proof (cases "t \<in> fst ` set kvs")
  case True
  then have "map fst (increment t kvs) = map fst kvs" by (rule keys_increment_old)
  then have "set (map fst (increment t kvs)) = set (map fst kvs)" by simp
  with assms show ?thesis by simp
next
  case False
  then have "map fst (increment t kvs) = map fst kvs @ (if t = ''__proto__'' then [] else [t])"
    by (rule keys_increment_new)
  then have "set (map fst (increment t kvs)) =
             set (map fst kvs @ (if t = ''__proto__'' then [] else [t]))"
    by simp
  with assms show ?thesis by (auto split: if_splits)
qed

lemma proto_never_own: "''__proto__'' \<notin> fst ` set (trainerCounts_of rows)"
  by (induction rows rule: rev_induct)
     (simp_all add: trainerCounts_Nil trainerCounts_snoc proto_not_key_increment
        split: option.splits del: image_eqI)

lemma count_pos: "x \<in> set xs \<Longrightarrow> 0 < count_list xs x"
  by (induction xs) auto

lemma count_zero: "x \<notin> set xs \<Longrightarrow> count_list xs x = 0"
  by (induction xs) auto

lemma map_of_trainerCounts:
  "t \<noteq> ''__proto__'' \<Longrightarrow>
   map_of (trainerCounts_of rows) t =
     (if t \<noteq> [] \<and> Some t \<in> set (map trainer_id rows)
      then Some (if t \<in> set prototype_functions
                 then Source_text (count_list (map trainer_id rows) (Some t))
                 else Number (count_list (map trainer_id rows) (Some t)))
      else None)"
proof (induction rows rule: rev_induct)
  case Nil
  then show ?case by (simp add: trainerCounts_Nil)
next
  case (snoc m rows)
  note IH = snoc.IH[OF snoc.prems]
  show ?case
  proof (cases "trainer_id m")
    case None
    then show ?thesis using IH by (simp add: trainerCounts_snoc)
  next
    case (Some k)
    show ?thesis
    proof (cases "k = []")
      case True
      then show ?thesis using IH Some by (auto simp add: trainerCounts_snoc)
    next
      case False
      note k = this
      show ?thesis
      proof (cases "k = ''__proto__''")
        case True
        have "increment k (trainerCounts_of rows) = trainerCounts_of rows"
          using True proto_never_own[of rows] by (simp add: increment_proto_new)
        then show ?thesis using IH Some k True snoc.prems by (auto simp add: trainerCounts_snoc)
      next
        case False
        show ?thesis
        proof (cases "t = k")
          case True
          then show ?thesis using IH Some k False
            by (auto simp add: trainerCounts_snoc map_of_increment count_zero
                     dest: count_pos)
        next
          case False
          then show ?thesis using IH Some k \<open>k \<noteq> ''__proto__''\<close>
            by (auto simp add: trainerCounts_snoc map_of_increment)
        qed
      qed
    qed
  qed
qed

lemma number_entry_iff:
  "(t, Number c) \<in> set (Object_entries (trainerCounts_of rows)) \<longleftrightarrow>
   t \<noteq> [] \<and> \<not> inherited t \<and> Some t \<in> set (map trainer_id rows) \<and>
   c = count_list (map trainer_id rows) (Some t)"
proof (cases "t = ''__proto__''")
  case True
  have "(t, Number c) \<notin> set (trainerCounts_of rows)"
    using proto_never_own[of rows] True by force
  then have "(t, Number c) \<notin> set (Object_entries (trainerCounts_of rows))"
    by (auto simp: Object_entries_def)
  then show ?thesis using True by (simp add: inherited_def)
next
  case False
  have "(t, Number c) \<in> set (Object_entries (trainerCounts_of rows)) \<longleftrightarrow>
        (t, Number c) \<in> set (trainerCounts_of rows)"
    by (auto simp: Object_entries_def)
  also have "\<dots> \<longleftrightarrow> map_of (trainerCounts_of rows) t = Some (Number c)"
    using distinct_trainerCounts[of rows] by simp
  also have "\<dots> \<longleftrightarrow> t \<noteq> [] \<and> \<not> inherited t \<and> Some t \<in> set (map trainer_id rows) \<and>
     c = count_list (map trainer_id rows) (Some t)"
    using False by (auto simp: map_of_trainerCounts[OF False] inherited_def)
  finally show ?thesis .
qed

lemma top_step_number:
  "top_step (s0, m0) (k, Number c) = (if c > m0 then (Some k, c) else (s0, m0))"
  by (simp add: top_step_def)

lemma top_step_text: "top_step (s0, m0) (k, Source_text n) = (s0, m0)"
  by (simp add: top_step_def)

lemma top_step_general:
  "foldl top_step (s0, m0) es = (s, m) \<Longrightarrow>
     ((\<forall>k c. (k, Number c) \<in> set es \<longrightarrow> c \<le> m0) \<and> s = s0 \<and> m = m0) \<or>
     (\<exists>pre t post. es = pre @ (t, Number m) # post \<and> s = Some t \<and> m0 < m \<and>
        (\<forall>k c. (k, Number c) \<in> set pre \<longrightarrow> c < m) \<and>
        (\<forall>k c. (k, Number c) \<in> set post \<longrightarrow> c \<le> m))"
proof (induction es arbitrary: s0 m0)
  case Nil
  then show ?case by simp
next
  case (Cons e es)
  obtain k v where e: "e = (k, v)" by (cases e)
  have keep: ?case
    if f: "foldl top_step (s0, m0) es = (s, m)" and small: "\<forall>c. v = Number c \<longrightarrow> c \<le> m0"
  proof -
    from Cons.IH[OF f] show ?thesis
    proof
      assume "(\<forall>k c. (k, Number c) \<in> set es \<longrightarrow> c \<le> m0) \<and> s = s0 \<and> m = m0"
      then show ?thesis using e small by auto
    next
      assume "\<exists>pre t post. es = pre @ (t, Number m) # post \<and> s = Some t \<and> m0 < m \<and>
        (\<forall>k c. (k, Number c) \<in> set pre \<longrightarrow> c < m) \<and>
        (\<forall>k c. (k, Number c) \<in> set post \<longrightarrow> c \<le> m)"
      then obtain pre t post where p: "es = pre @ (t, Number m) # post" "s = Some t" "m0 < m"
        "\<forall>k c. (k, Number c) \<in> set pre \<longrightarrow> c < m"
        "\<forall>k c. (k, Number c) \<in> set post \<longrightarrow> c \<le> m" by blast
      then have "e # es = (e # pre) @ (t, Number m) # post \<and> s = Some t \<and> m0 < m \<and>
        (\<forall>k c. (k, Number c) \<in> set (e # pre) \<longrightarrow> c < m) \<and>
        (\<forall>k c. (k, Number c) \<in> set post \<longrightarrow> c \<le> m)"
        using e small by auto
      then show ?thesis by (intro disjI2 exI)
    qed
  qed
  show ?case
  proof (cases v)
    case (Source_text n)
    with Cons.prems e have "foldl top_step (s0, m0) es = (s, m)" by (simp add: top_step_text)
    then show ?thesis using Source_text by (intro keep) simp_all
  next
    case (Number c)
    show ?thesis
    proof (cases "c > m0")
      case False
      with Cons.prems e Number have "foldl top_step (s0, m0) es = (s, m)"
        by (simp add: top_step_number)
      then show ?thesis using Number False by (intro keep) simp_all
    next
      case True
      with Cons.prems e Number have f: "foldl top_step (Some k, c) es = (s, m)"
        by (simp add: top_step_number)
      from Cons.IH[OF f] show ?thesis
      proof
        assume a: "(\<forall>k' c'. (k', Number c') \<in> set es \<longrightarrow> c' \<le> c) \<and> s = Some k \<and> m = c"
        then have "e # es = [] @ (k, Number m) # es \<and> s = Some k \<and> m0 < m \<and>
          (\<forall>k' c'. (k', Number c') \<in> set [] \<longrightarrow> c' < m) \<and>
          (\<forall>k' c'. (k', Number c') \<in> set es \<longrightarrow> c' \<le> m)" using e Number True by simp
        then show ?thesis by (intro disjI2 exI)
      next
        assume "\<exists>pre t post. es = pre @ (t, Number m) # post \<and> s = Some t \<and> c < m \<and>
          (\<forall>k c. (k, Number c) \<in> set pre \<longrightarrow> c < m) \<and>
          (\<forall>k c. (k, Number c) \<in> set post \<longrightarrow> c \<le> m)"
        then obtain pre t post where p: "es = pre @ (t, Number m) # post" "s = Some t" "c < m"
          "\<forall>k c. (k, Number c) \<in> set pre \<longrightarrow> c < m"
          "\<forall>k c. (k, Number c) \<in> set post \<longrightarrow> c \<le> m" by blast
        then have "e # es = (e # pre) @ (t, Number m) # post \<and> s = Some t \<and> m0 < m \<and>
          (\<forall>k c. (k, Number c) \<in> set (e # pre) \<longrightarrow> c < m) \<and>
          (\<forall>k c. (k, Number c) \<in> set post \<longrightarrow> c \<le> m)"
          using e Number True by auto
        then show ?thesis by (intro disjI2 exI)
      qed
    qed
  qed
qed

lemma select_top_cases:
  assumes "select_top es = (sel, maxCount)"
  shows "(sel = None \<and> maxCount = 0 \<and> (\<forall>k c. (k, Number c) \<in> set es \<longrightarrow> c = 0)) \<or>
         (\<exists>pre t post. es = pre @ (t, Number maxCount) # post \<and> sel = Some t \<and> 0 < maxCount \<and>
            (\<forall>k c. (k, Number c) \<in> set pre \<longrightarrow> c < maxCount) \<and>
            (\<forall>k c. (k, Number c) \<in> set post \<longrightarrow> c \<le> maxCount))"
  using top_step_general[of None 0 es sel maxCount] assms
  by (auto simp: select_top_def)

lemma select_top_none:
  assumes "select_top (Object_entries (trainerCounts_of rows)) = (sel, maxCount)"
  shows "sel = None \<longleftrightarrow>
         (\<forall>m\<in>set rows. \<forall>t. trainer_id m = Some t \<longrightarrow> t = [] \<or> inherited t)"
proof
  assume n: "sel = None"
  from select_top_cases[OF assms] n
  have z: "\<forall>k c. (k, Number c) \<in> set (Object_entries (trainerCounts_of rows)) \<longrightarrow> c = 0" by auto
  show "\<forall>m\<in>set rows. \<forall>t. trainer_id m = Some t \<longrightarrow> t = [] \<or> inherited t"
  proof (intro ballI allI impI)
    fix m t assume m: "m \<in> set rows" and t: "trainer_id m = Some t"
    show "t = [] \<or> inherited t"
    proof (rule ccontr)
      assume "\<not> (t = [] \<or> inherited t)"
      then have ne: "t \<noteq> []" "\<not> inherited t" by simp_all
      from m t have in_rows: "Some t \<in> set (map trainer_id rows)" by force
      then have "(t, Number (count_list (map trainer_id rows) (Some t)))
                   \<in> set (Object_entries (trainerCounts_of rows))"
        using ne by (simp add: number_entry_iff)
      with z have "count_list (map trainer_id rows) (Some t) = 0" by blast
      with count_pos[OF in_rows] show False by simp
    qed
  qed
next
  assume a: "\<forall>m\<in>set rows. \<forall>t. trainer_id m = Some t \<longrightarrow> t = [] \<or> inherited t"
  show "sel = None"
  proof (rule ccontr)
    assume "sel \<noteq> None"
    with select_top_cases[OF assms] obtain pre t post where
      "Object_entries (trainerCounts_of rows) = pre @ (t, Number maxCount) # post" by auto
    then have "(t, Number maxCount) \<in> set (Object_entries (trainerCounts_of rows))" by simp
    then have "t \<noteq> []" "\<not> inherited t" "Some t \<in> set (map trainer_id rows)"
      by (simp_all add: number_entry_iff)
    then obtain m where "m \<in> set rows" "trainer_id m = Some t" by auto
    with a \<open>t \<noteq> []\<close> \<open>\<not> inherited t\<close> show False by blast
  qed
qed

lemma select_top_some:
  assumes "select_top (Object_entries (trainerCounts_of rows)) = (Some t, maxCount)"
  shows "t \<noteq> []" "\<not> inherited t" "Some t \<in> set (map trainer_id rows)"
    "count_list (map trainer_id rows) (Some t) = maxCount"
    "t' \<noteq> [] \<Longrightarrow> \<not> inherited t' \<Longrightarrow> count_list (map trainer_id rows) (Some t') \<le> maxCount"
    "\<exists>pre post. Object_entries (trainerCounts_of rows) = pre @ (t, Number maxCount) # post \<and>
        (\<forall>k c. (k, Number c) \<in> set pre \<longrightarrow> c < maxCount) \<and>
        (\<forall>k c. (k, Number c) \<in> set post \<longrightarrow> c \<le> maxCount)"
proof -
  from select_top_cases[OF assms] obtain pre post where
    p: "Object_entries (trainerCounts_of rows) = pre @ (t, Number maxCount) # post"
       "\<forall>k c. (k, Number c) \<in> set pre \<longrightarrow> c < maxCount"
       "\<forall>k c. (k, Number c) \<in> set post \<longrightarrow> c \<le> maxCount"
    by auto
  then show "\<exists>pre post. Object_entries (trainerCounts_of rows) = pre @ (t, Number maxCount) # post \<and>
        (\<forall>k c. (k, Number c) \<in> set pre \<longrightarrow> c < maxCount) \<and>
        (\<forall>k c. (k, Number c) \<in> set post \<longrightarrow> c \<le> maxCount)" by blast
  from p(1) have "(t, Number maxCount) \<in> set (Object_entries (trainerCounts_of rows))" by simp
  then show "t \<noteq> []" "\<not> inherited t" "Some t \<in> set (map trainer_id rows)"
    "count_list (map trainer_id rows) (Some t) = maxCount"
    by (simp_all add: number_entry_iff)
  show "count_list (map trainer_id rows) (Some t') \<le> maxCount" if "t' \<noteq> []" "\<not> inherited t'"
  proof (cases "Some t' \<in> set (map trainer_id rows)")
    case True
    with that have "(t', Number (count_list (map trainer_id rows) (Some t')))
                      \<in> set (Object_entries (trainerCounts_of rows))"
      by (simp add: number_entry_iff)
    then have "(t', Number (count_list (map trainer_id rows) (Some t'))) \<in> set pre \<or>
               (t', Number (count_list (map trainer_id rows) (Some t'))) = (t, Number maxCount) \<or>
               (t', Number (count_list (map trainer_id rows) (Some t'))) \<in> set post"
      using p(1) by auto
    with p(2,3) show ?thesis by (auto dest: less_imp_le)
  next
    case False
    then show ?thesis by (simp add: count_zero)
  qed
qed

lemma fetchTopTrainer_none:
  "select_top (Object_entries (trainerCounts_of rows)) = (None, maxCount) \<Longrightarrow>
   fetchTopTrainer (Data rows) trainers_answer d = Inr (d\<lparr>requests := requests d @ [MembersSelect]\<rparr>)"
  by (simp add: fetchTopTrainer_def Let_def truthy_def)

lemma fetchTopTrainer_some:
  "select_top (Object_entries (trainerCounts_of rows)) = (Some t, maxCount) \<Longrightarrow> t \<noteq> [] \<Longrightarrow>
   trainers_answer t = Data \<lparr>users = Some n\<rparr> \<Longrightarrow>
   fetchTopTrainer (Data rows) trainers_answer d =
     Inr (d\<lparr>requests := requests d @ [MembersSelect, TrainersSelectSingle t],
           topTrainer := Some \<lparr>name = n, memberCount = maxCount\<rparr>\<rparr>)"
  by (simp add: fetchTopTrainer_def Let_def truthy_def)

text \<open>
  C9 (as amended). Take fetched rows none of whose \<open>trainer_id\<close> is the name of a property
  inherited from \<open>Object.prototype\<close>, and let \<open>(sel, maxCount)\<close> be what the loop of lines
  121 to 128 selects from the enumeration of the per-trainer counts. No trainer is
  selected exactly when no fetched row has a non-null, non-empty \<open>trainer_id\<close>; the state
  is then left as it was at mount, and the card shows "N/A". A selected trainer has a
  non-empty id, its number of rows is \<open>maxCount\<close> and no non-empty trainer id has more
  rows; in the enumeration every entry before it has a strictly smaller count, so of several
  trainers with the maximal count the first enumerated is kept. When the query for its
  details answers with the name of its user, the state holds that name with
  \<open>memberCount = maxCount\<close>, and the card shows the name.
\<close>

theorem top_trainer_has_most_members:
  "\<forall>m\<in>set rows. \<forall>t. trainer_id m = Some t \<longrightarrow> \<not> inherited t \<Longrightarrow>
   select_top (Object_entries (trainerCounts_of rows)) = (sel, maxCount) \<Longrightarrow>
   (sel = None \<longleftrightarrow> (\<forall>m\<in>set rows. \<not> truthy (trainer_id m))) \<and>
   (sel = None \<longrightarrow>
      fetchTopTrainer (Data rows) trainers_answer (mounted b) =
        Inr ((mounted b)\<lparr>requests := requests b @ [MembersSelect]\<rparr>) \<and>
      topTrainer_value ((mounted b)\<lparr>requests := requests b @ [MembersSelect]\<rparr>) = ''N/A'') \<and>
   (\<forall>t. sel = Some t \<longrightarrow>
      t \<noteq> [] \<and> 0 < maxCount \<and>
      count_list (map trainer_id rows) (Some t) = maxCount \<and>
      (\<forall>t'. t' \<noteq> [] \<longrightarrow> count_list (map trainer_id rows) (Some t') \<le> maxCount) \<and>
      (\<exists>pre post. Object_entries (trainerCounts_of rows) = pre @ (t, Number maxCount) # post \<and>
         (\<forall>k c. (k, Number c) \<in> set pre \<longrightarrow> c < maxCount) \<and>
         (\<forall>k c. (k, Number c) \<in> set post \<longrightarrow> c \<le> maxCount)) \<and>
      (\<forall>n. trainers_answer t = Data \<lparr>users = Some n\<rparr> \<longrightarrow>
         fetchTopTrainer (Data rows) trainers_answer (mounted b) =
           Inr ((mounted b)\<lparr>requests := requests b @ [MembersSelect, TrainersSelectSingle t],
                 topTrainer := Some \<lparr>name = n, memberCount = maxCount\<rparr>\<rparr>) \<and>
         topTrainer_value
           ((mounted b)\<lparr>requests := requests b @ [MembersSelect, TrainersSelectSingle t],
                 topTrainer := Some \<lparr>name = n, memberCount = maxCount\<rparr>\<rparr>) = n))"
proof (intro conjI allI impI)
  assume plain: "\<forall>m\<in>set rows. \<forall>t. trainer_id m = Some t \<longrightarrow> \<not> inherited t"
  assume a: "select_top (Object_entries (trainerCounts_of rows)) = (sel, maxCount)"
  have rq: "requests (mounted b) = requests b" by (simp add: mounted_def)
  have "sel = None \<longleftrightarrow> (\<forall>m\<in>set rows. \<forall>t. trainer_id m = Some t \<longrightarrow> t = [] \<or> inherited t)"
    using a by (rule select_top_none)
  also have "\<dots> \<longleftrightarrow> (\<forall>m\<in>set rows. \<not> truthy (trainer_id m))"
    using plain by (auto simp: truthy_def split: option.splits)
  finally show "sel = None \<longleftrightarrow> (\<forall>m\<in>set rows. \<not> truthy (trainer_id m))" .
  show "fetchTopTrainer (Data rows) trainers_answer (mounted b) =
        Inr ((mounted b)\<lparr>requests := requests b @ [MembersSelect]\<rparr>)" if "sel = None"
    using a that fetchTopTrainer_none[of rows maxCount trainers_answer "mounted b"]
    by (simp add: rq)
  show "topTrainer_value ((mounted b)\<lparr>requests := requests b @ [MembersSelect]\<rparr>) = ''N/A''"
    by (simp add: topTrainer_value_def mounted_def)
  fix t assume "sel = Some t"
  with a have s: "select_top (Object_entries (trainerCounts_of rows)) = (Some t, maxCount)" by simp
  show ne: "t \<noteq> []" using s by (rule select_top_some(1))
  show "count_list (map trainer_id rows) (Some t) = maxCount" using s by (rule select_top_some(4))
  have "Some t \<in> set (map trainer_id rows)" using s by (rule select_top_some(3))
  then have "0 < count_list (map trainer_id rows) (Some t)" by (rule count_pos)
  then show "0 < maxCount" using select_top_some(4)[OF s] by simp
  show "\<exists>pre post. Object_entries (trainerCounts_of rows) = pre @ (t, Number maxCount) # post \<and>
         (\<forall>k c. (k, Number c) \<in> set pre \<longrightarrow> c < maxCount) \<and>
         (\<forall>k c. (k, Number c) \<in> set post \<longrightarrow> c \<le> maxCount)"
    using s by (rule select_top_some(6))
  show "count_list (map trainer_id rows) (Some t') \<le> maxCount" if "t' \<noteq> []" for t'
  proof (cases "inherited t'")
    case True
    with plain have "Some t' \<notin> set (map trainer_id rows)" by force
    then show ?thesis by (simp add: count_zero)
  next
    case False
    with s that show ?thesis by (rule select_top_some(5))
  qed
  show "fetchTopTrainer (Data rows) trainers_answer (mounted b) =
           Inr ((mounted b)\<lparr>requests := requests b @ [MembersSelect, TrainersSelectSingle t],
                 topTrainer := Some \<lparr>name = n, memberCount = maxCount\<rparr>\<rparr>)"
    if "trainers_answer t = Data \<lparr>users = Some n\<rparr>" for n
    using fetchTopTrainer_some[where d = "mounted b" and trainers_answer = trainers_answer, OF s ne that]
    by (simp add: rq)
  show "topTrainer_value
           ((mounted b)\<lparr>requests := requests b @ [MembersSelect, TrainersSelectSingle t],
                 topTrainer := Some \<lparr>name = n, memberCount = maxCount\<rparr>\<rparr>) = n" for n
    by (simp add: topTrainer_value_def)
qed

lemma sample_counts:
  "trainerCounts_of [assigned_to ''b'', assigned_to ''7'', unassigned, assigned_to ''7'',
                     assigned_to ''b'', assigned_to ''a'']
   = [(''b'', Number 2), (''7'', Number 2), (''a'', Number 1)]"
  by (simp add: trainerCounts_of_def count_member_def truthy_def assigned_to_def unassigned_def
        prototype_functions_def)

lemma sample_entries:
  "Object_entries [(''b'', Number 2), (''7'', Number 2), (''a'', Number 1)]
     = [(''7'', Number 2), (''b'', Number 2), (''a'', Number 1)]"
  by (simp add: Object_entries_def is_array_index_def is_digit_def index_value_def)

lemma sample_top:
  "select_top (Object_entries (trainerCounts_of
      [assigned_to ''b'', assigned_to ''7'', unassigned, assigned_to ''7'',
       assigned_to ''b'', assigned_to ''a''])) = (Some ''7'', 2)"
  by (simp only: sample_counts sample_entries) (simp add: select_top_def top_step_number)

lemma sample_plain:
  "\<forall>m\<in>set [assigned_to ''b'', assigned_to ''7'', unassigned, assigned_to ''7'',
       assigned_to ''b'', assigned_to ''a'']. \<forall>t. trainer_id m = Some t \<longrightarrow> \<not> inherited t"
  by (simp add: assigned_to_def unassigned_def inherited_def prototype_functions_def)

theorem top_trainer_has_most_members_witness:
  "\<not> inherited ''b'' \<and> \<not> inherited ''7'' \<and> \<not> inherited ''a'' \<and>
   select_top (Object_entries (trainerCounts_of
      [assigned_to ''b'', assigned_to ''7'', unassigned, assigned_to ''7'',
       assigned_to ''b'', assigned_to ''a''])) = (Some ''7'', 2) \<and>
   count_list (map trainer_id [assigned_to ''b'', assigned_to ''7'', unassigned, assigned_to ''7'',
       assigned_to ''b'', assigned_to ''a'']) (Some ''7'') = 2 \<and>
   count_list (map trainer_id [assigned_to ''b'', assigned_to ''7'', unassigned, assigned_to ''7'',
       assigned_to ''b'', assigned_to ''a'']) (Some ''b'') \<le> 2 \<and>
   fetchTopTrainer (Data [assigned_to ''b'', assigned_to ''7'', unassigned, assigned_to ''7'',
       assigned_to ''b'', assigned_to ''a'']) known_trainer (mounted idle_browser) =
     Inr ((mounted idle_browser)\<lparr>requests := [MembersSelect, TrainersSelectSingle ''7''],
            topTrainer := Some \<lparr>name = ''Trainer 7'', memberCount = 2\<rparr>\<rparr>) \<and>
   topTrainer_value ((mounted idle_browser)\<lparr>requests := [MembersSelect, TrainersSelectSingle ''7''],
            topTrainer := Some \<lparr>name = ''Trainer 7'', memberCount = 2\<rparr>\<rparr>) = ''Trainer 7''"
  using top_trainer_has_most_members
          [OF sample_plain sample_top, of known_trainer idle_browser]
  by (simp add: sample_top known_trainer_def idle_browser_def inherited_def
        prototype_functions_def)

text \<open>
  C9 as stated fails three times. A fetched row whose \<open>trainer_id\<close> is the empty string has
  a non-null \<open>trainer_id\<close>, yet line 115 skips it: no trainer is selected and the card shows
  "N/A". A row whose \<open>trainer_id\<close> is \<open>constructor\<close> is counted into a string, which line
  124 never finds greater than \<open>maxCount\<close>: again no trainer is selected. And when the
  query for the details of the selected trainer returns an error, nothing is reported and
  the card shows "N/A" although a trainer has a member.
\<close>

theorem top_trainer_counterexample:
  "trainer_id (assigned_to []) \<noteq> None \<and>
   fetchTopTrainer (Data [assigned_to []]) known_trainer (mounted idle_browser) =
     Inr ((mounted idle_browser)\<lparr>requests := [MembersSelect]\<rparr>) \<and>
   trainer_id (assigned_to ''constructor'') \<noteq> None \<and>
   trainer_id (assigned_to ''constructor'') \<noteq> Some [] \<and>
   fetchTopTrainer (Data [assigned_to ''constructor'']) known_trainer (mounted idle_browser) =
     Inr ((mounted idle_browser)\<lparr>requests := [MembersSelect]\<rparr>) \<and>
   topTrainer_value ((mounted idle_browser)\<lparr>requests := [MembersSelect]\<rparr>) = ''N/A'' \<and>
   fetchTopTrainer (Data [assigned_to ''a'']) unknown_trainer (mounted idle_browser) =
     Inr ((mounted idle_browser)
            \<lparr>requests := [MembersSelect, TrainersSelectSingle ''a''],
             console := [ConsoleError [Text ''Error fetching top trainer:'', Err (Error ''no rows'')]]\<rparr>) \<and>
   topTrainer_value ((mounted idle_browser)
            \<lparr>requests := [MembersSelect, TrainersSelectSingle ''a''],
             console := [ConsoleError [Text ''Error fetching top trainer:'', Err (Error ''no rows'')]]\<rparr>)
     = ''N/A''"
  by (simp add: assigned_to_def trainerCounts_of_def count_member_def truthy_def Object_entries_def
        select_top_def top_step_def fetchTopTrainer_def Let_def mounted_def idle_browser_def
        topTrainer_value_def prototype_functions_def is_array_index_def is_digit_def
        unknown_trainer_def)

section \<open>The attendance toggle\<close>















end
